theory Spec2Isabelle
  imports Complex_Main "HOL-Library.Multiset"
begin

section \<open>Trivia game session tools (src/mastra/tools/game-tools.ts)\<close>

text \<open>
  The tools of \<^verbatim>\<open>game-tools.ts\<close> share one in-memory \<^verbatim>\<open>Map\<close> from player identifiers
  to game states.  Each tool is embedded as a function that takes the map and the tool's
  input and returns the tool's outcome together with the map afterwards; a thrown
  \<^verbatim>\<open>Error\<close> is the \<open>Inl\<close> branch of the outcome.

  Numbers: every number the tools store is an integer (scores start at 0 and change by
  integer amounts), so \<^verbatim>\<open>score\<close> is an \<open>int\<close> and the counters that only count up from 0
  are \<open>nat\<close>; the 53-bit precision limit of JavaScript numbers is not modelled.  The two
  places where the source computes with fractions (the difficulty multiplier and the
  accuracy percentage) are modelled with exact rationals.

  Strings are \<open>char list\<close>; \<^verbatim>\<open>trim\<close> and \<^verbatim>\<open>toUpperCase\<close> are modelled on ASCII
  (white space is the characters 9 to 13 and 32, the letters a to z are raised, every other
  character is kept).  The display messages of the tool results are not modelled.
  Question difficulties are the labels delivered by the question provider; names of
  properties that a JavaScript object literal inherits from its prototype are not
  modelled as difficulty labels.
\<close>

subsection \<open>Data model\<close>

record Question =
  qid :: nat  \<comment> \<open>\<^verbatim>\<open>id\<close> is \<^verbatim>\<open>q-<qid>\<close>\<close>
  category :: string
  difficulty :: string
  question :: string
  options :: "string list"
  correct :: string
  answered :: bool
  userAnswer :: "string option"

record GameState =
  playerId :: string
  score :: int
  currentQuestionIndex :: nat
  questions :: "Question list"
  streak :: nat
  hintsUsed :: nat
  skipsUsed :: nat
  lastPlayed :: string

text \<open>The \<^verbatim>\<open>Map<string, GameState>\<close>, as its entries in insertion order.\<close>

type_synonym GameStates = "(string \<times> GameState) list"

definition gameStates_get :: "GameStates \<Rightarrow> string \<Rightarrow> GameState option" where
  "gameStates_get gs p = map_of gs p"

text \<open>\<^verbatim>\<open>Map.set\<close>: an existing key keeps its place, a new key goes to the end.\<close>

fun gameStates_set :: "GameStates \<Rightarrow> string \<Rightarrow> GameState \<Rightarrow> GameStates" where
  "gameStates_set [] p v = [(p, v)]"
| "gameStates_set ((k, w) # gs) p v =
     (if k = p then (p, v) # gs else (k, w) # gameStates_set gs p v)"

datatype error = NoActiveGame | NoCurrentQuestion

text \<open>The public view of a question that the tools return.\<close>

record QuestionView =
  v_index :: nat
  v_question :: string
  v_options :: "string list"
  v_category :: string
  v_difficulty :: string

definition questionView :: "nat \<Rightarrow> Question \<Rightarrow> QuestionView" where
  "questionView i q =
     \<lparr>v_index = i, v_question = question q, v_options = options q,
      v_category = category q, v_difficulty = difficulty q\<rparr>"

subsection \<open>String helpers\<close>

definition isSpace :: "char \<Rightarrow> bool" where
  "isSpace c = (let n = (of_char c :: nat) in (9 \<le> n \<and> n \<le> 13) \<or> n = 32)"

definition trim :: "string \<Rightarrow> string" where
  "trim s = rev (dropWhile isSpace (rev (dropWhile isSpace s)))"

definition upperChar :: "char \<Rightarrow> char" where
  "upperChar c =
     (let n = (of_char c :: nat) in if 97 \<le> n \<and> n \<le> 122 then char_of (n - 32) else c)"

definition toUpperCase :: "string \<Rightarrow> string" where
  "toUpperCase s = map upperChar s"

text \<open>The test \<^verbatim>\<open>/^[A-D]$/\<close>: exactly one character, between A and D.\<close>

definition isLetterAD :: "string \<Rightarrow> bool" where
  "isLetterAD s =
     (case s of [c] \<Rightarrow> 65 \<le> (of_char c :: nat) \<and> (of_char c :: nat) \<le> 68 | _ \<Rightarrow> False)"

text \<open>\<^verbatim>\<open>s.charCodeAt(0) - 65\<close> for a string that passed the test.\<close>

definition letterIndex :: "string \<Rightarrow> nat" where
  "letterIndex s = (of_char (hd s) :: nat) - 65"

text \<open>\<^verbatim>\<open>Math.round\<close> rounds to the nearest integer, halves upwards.\<close>

definition js_round :: "rat \<Rightarrow> int" where
  "js_round x = \<lfloor>x + 1 / 2\<rfloor>"

subsection \<open>answerQuestionTool\<close>

record AnswerResult =
  a_correct :: bool
  a_score :: int
  a_correctAnswer :: string
  a_streak :: nat
  a_nextQuestion :: "QuestionView option"
  a_gameCompleted :: bool

text \<open>Lines 192 to 203: is the submitted answer right for this question?\<close>

definition isCorrectAnswer :: "Question \<Rightarrow> string \<Rightarrow> bool" where
  "isCorrectAnswer currentQuestion answer =
     (let normalizedUserAnswer = toUpperCase (trim answer);
          normalizedCorrectAnswer = toUpperCase (correct currentQuestion)
      in if isLetterAD normalizedUserAnswer
         then (let optionIndex = letterIndex normalizedUserAnswer
               in optionIndex < length (options currentQuestion) \<and>
                  options currentQuestion ! optionIndex = correct currentQuestion)
         else normalizedUserAnswer = normalizedCorrectAnswer)"

text \<open>Lines 217 to 221: the lookup \<^verbatim>\<open>{easy: 1, medium: 1.5, hard: 2}[d] || 1\<close>.\<close>

definition difficultyMultiplier :: "string \<Rightarrow> rat" where
  "difficultyMultiplier d =
     (if d = ''easy'' then 1 else if d = ''medium'' then 3 / 2
      else if d = ''hard'' then 2 else 1)"

definition nextQuestionView :: "GameState \<Rightarrow> QuestionView option" where
  "nextQuestionView gameState =
     (if currentQuestionIndex gameState \<ge> length (questions gameState) then None
      else Some (questionView (currentQuestionIndex gameState + 1)
                   (questions gameState ! currentQuestionIndex gameState)))"

definition answerQuestionTool ::
  "GameStates \<Rightarrow> string \<Rightarrow> string \<Rightarrow> (error + AnswerResult) \<times> GameStates" where
  "answerQuestionTool gs pid answer =
     (case gameStates_get gs pid of
        None \<Rightarrow> (Inl NoActiveGame, gs)
      | Some gameState \<Rightarrow>
          if currentQuestionIndex gameState \<ge> length (questions gameState)
          then (Inl NoCurrentQuestion, gs)
          else
            let i = currentQuestionIndex gameState;
                currentQuestion = questions gameState ! i;
                isCorrect = isCorrectAnswer currentQuestion answer;
                answeredQuestion = currentQuestion\<lparr>answered := True, userAnswer := Some answer\<rparr>;
                g1 = gameState\<lparr>questions := (questions gameState)[i := answeredQuestion]\<rparr>;
                g2 = (if isCorrect
                      then
                        let g = g1\<lparr>streak := streak g1 + 1\<rparr>;
                            basePoints = 10;
                            streakBonus = (if streak g \<ge> 3 then (streak g div 3) * 2 else 0);
                            scoreGained =
                              js_round (basePoints * difficultyMultiplier (difficulty currentQuestion))
                                + int streakBonus
                        in g\<lparr>score := score g + scoreGained\<rparr>
                      else g1\<lparr>streak := 0\<rparr>);
                g3 = g2\<lparr>currentQuestionIndex := currentQuestionIndex g2 + 1\<rparr>;
                gameCompleted = (currentQuestionIndex g3 \<ge> length (questions g3))
            in (Inr \<lparr>a_correct = isCorrect, a_score = score g3,
                      a_correctAnswer = correct currentQuestion, a_streak = streak g3,
                      a_nextQuestion = nextQuestionView g3,
                      a_gameCompleted = gameCompleted\<rparr>,
                gameStates_set gs pid g3))"

subsection \<open>getHintTool\<close>

text \<open>
  \<^verbatim>\<open>Math.floor(Math.random() * n)\<close> is some number below \<open>n\<close>; the random draws are
  inputs of the model, and a draw \<open>d\<close> stands for the number \<open>d mod n\<close>.
  \<^verbatim>\<open>shuffleArray\<close> walks \<open>i\<close> from the last index down to 1 and swaps position \<open>i\<close>
  with a drawn position \<open>j \<le> i\<close>; \<open>rnd i\<close> is the draw made at index \<open>i\<close>.
\<close>

fun shuffleFrom :: "(nat \<Rightarrow> nat) \<Rightarrow> nat \<Rightarrow> 'a list \<Rightarrow> 'a list" where
  "shuffleFrom rnd 0 shuffled = shuffled"
| "shuffleFrom rnd (Suc i) shuffled =
     (let j = rnd (Suc i) mod (Suc i + 1)
      in shuffleFrom rnd i (shuffled[Suc i := shuffled ! j, j := shuffled ! Suc i]))"

definition shuffleArray :: "(nat \<Rightarrow> nat) \<Rightarrow> 'a list \<Rightarrow> 'a list" where
  "shuffleArray rnd array = shuffleFrom rnd (length array - 1) array"

record HintResult =
  h_success :: bool
  h_remainingOptions :: "string list"
  h_hintsUsed :: nat
  h_scorePenalty :: int

definition getHintTool ::
  "GameStates \<Rightarrow> string \<Rightarrow> nat \<Rightarrow> (nat \<Rightarrow> nat) \<Rightarrow> (error + HintResult) \<times> GameStates" where
  "getHintTool gs pid pick rnd =
     (case gameStates_get gs pid of
        None \<Rightarrow> (Inl NoActiveGame, gs)
      | Some gameState \<Rightarrow>
          if currentQuestionIndex gameState \<ge> length (questions gameState)
          then (Inl NoCurrentQuestion, gs)
          else
            let currentQuestion = questions gameState ! currentQuestionIndex gameState
            in if hintsUsed gameState \<ge> 3
               then (Inr \<lparr>h_success = False, h_remainingOptions = options currentQuestion,
                          h_hintsUsed = hintsUsed gameState, h_scorePenalty = 0\<rparr>, gs)
               else
                 let wrongAnswers =
                       filter (\<lambda>opt. opt \<noteq> correct currentQuestion) (options currentQuestion);
                     randomWrongAnswer =
                       (if length wrongAnswers > 0
                        then wrongAnswers ! (pick mod length wrongAnswers)
                        else correct currentQuestion);
                     remainingOptions =
                       shuffleArray rnd [correct currentQuestion, randomWrongAnswer];
                     penalty = 2;
                     g1 = gameState\<lparr>score := max 0 (score gameState - penalty)\<rparr>;
                     g2 = g1\<lparr>hintsUsed := hintsUsed g1 + 1\<rparr>
                 in (Inr \<lparr>h_success = True, h_remainingOptions = remainingOptions,
                           h_hintsUsed = hintsUsed g2, h_scorePenalty = penalty\<rparr>,
                     gameStates_set gs pid g2))"

subsection \<open>skipQuestionTool\<close>

record SkipResult =
  s_success :: bool
  s_nextQuestion :: "QuestionView option"
  s_skipsUsed :: nat
  s_scorePenalty :: int

text \<open>The skip tool looks the session up but never looks at the current question.\<close>

definition skipQuestionTool ::
  "GameStates \<Rightarrow> string \<Rightarrow> (error + SkipResult) \<times> GameStates" where
  "skipQuestionTool gs pid =
     (case gameStates_get gs pid of
        None \<Rightarrow> (Inl NoActiveGame, gs)
      | Some gameState \<Rightarrow>
          if skipsUsed gameState \<ge> 2
          then (Inr \<lparr>s_success = False, s_nextQuestion = None,
                     s_skipsUsed = skipsUsed gameState, s_scorePenalty = 0\<rparr>, gs)
          else
            let penalty = 1;
                g1 = gameState\<lparr>score := max 0 (score gameState - penalty)\<rparr>;
                g2 = g1\<lparr>skipsUsed := skipsUsed g1 + 1\<rparr>;
                g3 = g2\<lparr>streak := 0\<rparr>;
                g4 = g3\<lparr>currentQuestionIndex := currentQuestionIndex g3 + 1\<rparr>
            in (Inr \<lparr>s_success = True, s_nextQuestion = nextQuestionView g4,
                      s_skipsUsed = skipsUsed g4, s_scorePenalty = penalty\<rparr>,
                gameStates_set gs pid g4))"

subsection \<open>getLeaderboardTool\<close>

record LeaderboardEntry =
  l_playerId :: string
  l_score :: int
  l_streak :: nat
  l_questionsAnswered :: nat

record LeaderboardResult =
  leaderboard :: "LeaderboardEntry list"
  totalPlayers :: nat

definition leaderboardEntry :: "string \<times> GameState \<Rightarrow> LeaderboardEntry" where
  "leaderboardEntry e =
     (case e of (pid, state) \<Rightarrow>
        \<lparr>l_playerId = pid, l_score = score state, l_streak = streak state,
         l_questionsAnswered = length (filter answered (questions state))\<rparr>)"

text \<open>
  \<^verbatim>\<open>Array.prototype.sort\<close> with a comparison function is a stable sort: \<open>a\<close> goes before
  \<open>b\<close> when \<open>cmp a b < 0\<close>, and elements that compare equal keep their order.  It is
  modelled as the insertion sort that puts each element, taken from the right, before the
  first element it does not have to follow.
\<close>

fun insertBy :: "('a \<Rightarrow> 'a \<Rightarrow> int) \<Rightarrow> 'a \<Rightarrow> 'a list \<Rightarrow> 'a list" where
  "insertBy cmp x [] = [x]"
| "insertBy cmp x (y # ys) = (if cmp x y \<le> 0 then x # y # ys else y # insertBy cmp x ys)"

definition sortBy :: "('a \<Rightarrow> 'a \<Rightarrow> int) \<Rightarrow> 'a list \<Rightarrow> 'a list" where
  "sortBy cmp xs = foldr (insertBy cmp) xs []"

definition getLeaderboardTool :: "GameStates \<Rightarrow> LeaderboardResult \<times> GameStates" where
  "getLeaderboardTool gs =
     (let entries =
            take 10 (sortBy (\<lambda>a b. l_score b - l_score a) (map leaderboardEntry gs))
      in (\<lparr>leaderboard = entries, totalPlayers = length gs\<rparr>, gs))"

subsection \<open>getGameStatsTool\<close>

record StatsResult =
  g_playerId :: string
  g_score :: int
  g_currentQuestion :: nat
  g_totalQuestions :: nat
  g_streak :: nat
  g_hintsUsed :: nat
  g_skipsUsed :: nat
  g_correctAnswers :: nat
  g_accuracy :: int

text \<open>
  Lines 462 to 471, the test applied to each answered question \<open>q\<close>.  The letter is
  looked up in the options of \<^verbatim>\<open>gameState.questions[0]\<close>; the test only runs for a
  question of the list, so the list has a first element whenever it runs.
\<close>

definition countsAsCorrect :: "GameState \<Rightarrow> Question \<Rightarrow> bool" where
  "countsAsCorrect gameState q =
     (case userAnswer q of
        None \<Rightarrow> False
      | Some a \<Rightarrow>
          if a = [] then False
          else
            let ua = toUpperCase a
            in if length ua = 1 \<and> isLetterAD ua
               then (let idx = letterIndex ua;
                         opts = (case questions gameState of [] \<Rightarrow> [] | q0 # _ \<Rightarrow> options q0)
                     in idx < length opts \<and> opts ! idx = correct q)
               else ua = toUpperCase (correct q))"

definition getGameStatsTool ::
  "GameStates \<Rightarrow> string \<Rightarrow> (error + StatsResult) \<times> GameStates" where
  "getGameStatsTool gs pid =
     (case gameStates_get gs pid of
        None \<Rightarrow> (Inl NoActiveGame, gs)
      | Some gameState \<Rightarrow>
          let answeredQuestions = filter answered (questions gameState);
              correctAnswers = length (filter (countsAsCorrect gameState) answeredQuestions);
              accuracy =
                (if length answeredQuestions > 0
                 then (of_nat correctAnswers / of_nat (length answeredQuestions)) * 100
                 else (0 :: rat))
          in (Inr \<lparr>g_playerId = pid, g_score = score gameState,
                    g_currentQuestion = currentQuestionIndex gameState + 1,
                    g_totalQuestions = length (questions gameState),
                    g_streak = streak gameState, g_hintsUsed = hintsUsed gameState,
                    g_skipsUsed = skipsUsed gameState, g_correctAnswers = correctAnswers,
                    g_accuracy = js_round accuracy\<rparr>, gs))"

subsection \<open>startGameTool\<close>

text \<open>
  What the provider delivered for one question, after the tool has decoded its texts and
  shuffled its options (lines 106 to 114); the fetch, the decoding and the shuffle are
  outside the model.
\<close>

record FetchedQuestion =
  f_category :: string
  f_difficulty :: string
  f_question :: string
  f_options :: "string list"
  f_correct :: string

record StartResult =
  st_success :: bool
  st_currentQuestion :: "QuestionView option"
  st_totalQuestions :: nat

definition buildQuestion :: "nat \<Rightarrow> FetchedQuestion \<Rightarrow> Question" where
  "buildQuestion index q =
     \<lparr>qid = index + 1, category = f_category q, difficulty = f_difficulty q,
      question = f_question q, options = f_options q, correct = f_correct q,
      answered = False, userAnswer = None\<rparr>"

text \<open>
  \<open>results = None\<close> stands for a fetch or a question build that threw, or a reply
  without a result list; that and an empty list are caught and reported as a failed start.
\<close>

definition startGameTool ::
  "GameStates \<Rightarrow> string \<Rightarrow> string \<Rightarrow> FetchedQuestion list option \<Rightarrow> StartResult \<times> GameStates"
  where
  "startGameTool gs pid today results =
     (case results of
        None \<Rightarrow> (\<lparr>st_success = False, st_currentQuestion = None, st_totalQuestions = 0\<rparr>, gs)
      | Some rs \<Rightarrow>
          if rs = []
          then (\<lparr>st_success = False, st_currentQuestion = None, st_totalQuestions = 0\<rparr>, gs)
          else
            let qs = map (\<lambda>(index, q). buildQuestion index q) (enumerate 0 rs);
                gameState =
                  \<lparr>playerId = pid, score = 0, currentQuestionIndex = 0, questions = qs,
                   streak = 0, hintsUsed = 0, skipsUsed = 0, lastPlayed = today\<rparr>
            in (\<lparr>st_success = True, st_currentQuestion = Some (questionView 1 (hd qs)),
                 st_totalQuestions = length qs\<rparr>,
                gameStates_set gs pid gameState))"

subsection \<open>Sequences of tool calls\<close>

datatype request =
    Start string string "FetchedQuestion list option"
  | Answer string string
  | Hint string nat "nat \<Rightarrow> nat"
  | Skip string
  | Leaderboard
  | Stats string

fun step :: "GameStates \<Rightarrow> request \<Rightarrow> GameStates" where
  "step gs (Start pid today results) = snd (startGameTool gs pid today results)"
| "step gs (Answer pid answer) = snd (answerQuestionTool gs pid answer)"
| "step gs (Hint pid pick rnd) = snd (getHintTool gs pid pick rnd)"
| "step gs (Skip pid) = snd (skipQuestionTool gs pid)"
| "step gs Leaderboard = snd (getLeaderboardTool gs)"
| "step gs (Stats pid) = snd (getGameStatsTool gs pid)"

definition run :: "GameStates \<Rightarrow> request list \<Rightarrow> GameStates" where
  "run gs reqs = foldl step gs reqs"

subsection \<open>The scoring rule as the specification words it\<close>



subsection \<open>Comparing sessions up to the recorded raw answers\<close>

definition forgetUserAnswers :: "GameState \<Rightarrow> GameState" where
  "forgetUserAnswers g = g\<lparr>questions := map (\<lambda>q. q\<lparr>userAnswer := None\<rparr>) (questions g)\<rparr>"


text \<open>The letter that names option \<open>i\<close>: A for 0, B for 1, and so on.\<close>

definition optionLetter :: "nat \<Rightarrow> string" where
  "optionLetter i = [char_of (65 + i)]"

subsection \<open>Sample games\<close>

definition sampleQuestions :: "FetchedQuestion list" where
  "sampleQuestions =
     [\<lparr>f_category = ''Science'', f_difficulty = ''hard'', f_question = ''Hottest planet?'',
       f_options = [''Mars'', ''Venus'', ''Earth'', ''Pluto''], f_correct = ''Venus''\<rparr>,
      \<lparr>f_category = ''Places'', f_difficulty = ''easy'', f_question = ''Capital of Italy?'',
       f_options = [''Rome'', ''Paris'', ''Oslo'', ''Bern''], f_correct = ''Rome''\<rparr>,
      \<lparr>f_category = ''Places'', f_difficulty = ''medium'', f_question = ''Capital of Norway?'',
       f_options = [''Bern'', ''Rome'', ''Oslo'', ''Paris''], f_correct = ''Oslo''\<rparr>]"

text \<open>Player p1 has just started a game of three questions.\<close>

definition sampleStore :: GameStates where
  "sampleStore = run [] [Start ''p1'' ''2025-01-01'' (Some sampleQuestions)]"

definition sampleSession :: GameState where
  "sampleSession = the (gameStates_get sampleStore ''p1'')"

text \<open>Player p1 has answered the first question rightly.\<close>

definition midStore :: GameStates where
  "midStore = run sampleStore [Answer ''p1'' ''B'']"

definition midSession :: GameState where
  "midSession = the (gameStates_get midStore ''p1'')"

text \<open>Player p1 has answered all three questions by letter, all rightly: the game is over.\<close>

definition completedStore :: GameStates where
  "completedStore = run midStore [Answer ''p1'' ''A'', Answer ''p1'' ''C'']"

definition completedSession :: GameState where
  "completedSession = the (gameStates_get completedStore ''p1'')"

text \<open>Player p1 has asked for three hints and skipped two questions.\<close>

definition exhaustedStore :: GameStates where
  "exhaustedStore =
     run sampleStore
       [Hint ''p1'' 0 (\<lambda>i. 0), Hint ''p1'' 1 (\<lambda>i. 1), Hint ''p1'' 2 (\<lambda>i. 0),
        Skip ''p1'', Skip ''p1'']"

definition exhaustedSession :: GameState where
  "exhaustedSession = the (gameStates_get exhaustedStore ''p1'')"




text \<open>A question whose correct answer was delivered with a trailing blank.\<close>

definition paddedQuestions :: "FetchedQuestion list" where
  "paddedQuestions =
     [\<lparr>f_category = ''Places'', f_difficulty = ''easy'', f_question = ''Capital of Italy?'',
       f_options = [''Rome '', ''Paris'', ''Oslo'', ''Bern''], f_correct = ''Rome ''\<rparr>]"

definition paddedStore :: GameStates where
  "paddedStore = run [] [Start ''p1'' ''2025-01-01'' (Some paddedQuestions)]"

section \<open>Properties\<close>

subsection \<open>The session map\<close>

lemma get_set:
  "gameStates_get (gameStates_set gs p v) p' =
     (if p' = p then Some v else gameStates_get gs p')"
  by (induction gs p v rule: gameStates_set.induct) (auto simp: gameStates_get_def)

lemma set_set_subset: "set (gameStates_set gs p v) \<subseteq> insert (p, v) (set gs)"
  by (induction gs p v rule: gameStates_set.induct) auto

lemma get_in_set: "gameStates_get gs p = Some g \<Longrightarrow> (p, g) \<in> set gs"
  by (simp add: gameStates_get_def map_of_SomeD)

lemma list_all_set:
  "list_all P gs \<Longrightarrow> P (p, v) \<Longrightarrow> list_all P (gameStates_set gs p v)"
  using set_set_subset[of gs p v] by (auto simp: list_all_iff)

lemma list_all_get: "list_all P gs \<Longrightarrow> gameStates_get gs p = Some g \<Longrightarrow> P (p, g)"
  using get_in_set[of gs p g] by (auto simp: list_all_iff)


subsection \<open>Trimming and upper-casing\<close>












subsection \<open>Rounding the difficulty points\<close>

lemma floor_half: "\<lfloor>(1::rat) / 2\<rfloor> = 0"
  by (simp add: floor_eq_iff)

lemma js_round_int: "js_round (of_int n) = n"
proof -
  have "\<lfloor>(of_int n :: rat) + 1 / 2\<rfloor> = n + \<lfloor>(1::rat) / 2\<rfloor>"
    by (metis floor_add_int add.commute)
  then show ?thesis
    by (simp add: js_round_def floor_half)
qed

lemma difficultyPoints_values:
  "js_round (10 * difficultyMultiplier d) =
     (if d = ''medium'' then 15 else if d = ''hard'' then 20 else 10)"
  using js_round_int[of 10] js_round_int[of 15] js_round_int[of 20]
  by (simp add: difficultyMultiplier_def)


subsection \<open>What each tool does to the session map\<close>

lemma answer_effect:
  "snd (answerQuestionTool gs pid a) = gs \<or>
   (\<exists>g g'. gameStates_get gs pid = Some g \<and>
      snd (answerQuestionTool gs pid a) = gameStates_set gs pid g' \<and>
      (score g \<le> score g' \<and> hintsUsed g' = hintsUsed g \<and> skipsUsed g' = skipsUsed g))"
  by (auto simp: answerQuestionTool_def Let_def difficultyPoints_values split: option.splits)

lemma hint_effect:
  "snd (getHintTool gs pid pick rnd) = gs \<or>
   (\<exists>g g'. gameStates_get gs pid = Some g \<and>
      snd (getHintTool gs pid pick rnd) = gameStates_set gs pid g' \<and>
      (score g' = max 0 (score g - 2) \<and> hintsUsed g < 3 \<and>
       hintsUsed g' = hintsUsed g + 1 \<and> skipsUsed g' = skipsUsed g))"
  by (auto simp: getHintTool_def Let_def split: option.splits)

lemma skip_effect:
  "snd (skipQuestionTool gs pid) = gs \<or>
   (\<exists>g g'. gameStates_get gs pid = Some g \<and>
      snd (skipQuestionTool gs pid) = gameStates_set gs pid g' \<and>
      (score g' = max 0 (score g - 1) \<and> skipsUsed g < 2 \<and>
       skipsUsed g' = skipsUsed g + 1 \<and> hintsUsed g' = hintsUsed g))"
  by (auto simp: skipQuestionTool_def Let_def split: option.splits)

lemma start_effect:
  "snd (startGameTool gs pid today results) = gs \<or>
   (\<exists>g'. snd (startGameTool gs pid today results) = gameStates_set gs pid g' \<and>
      (score g' = 0 \<and> hintsUsed g' = 0 \<and> skipsUsed g' = 0))"
  by (auto simp: startGameTool_def Let_def split: option.splits)

lemma stats_effect: "snd (getGameStatsTool gs pid) = gs"
  by (auto simp: getGameStatsTool_def Let_def split: option.splits)

lemma leaderboard_effect: "snd (getLeaderboardTool gs) = gs"
  by (simp add: getLeaderboardTool_def Let_def)

lemma run_invariant:
  assumes "\<And>gs req. list_all P gs \<Longrightarrow> list_all P (step gs req)"
  shows "list_all P gs \<Longrightarrow> list_all P (run gs reqs)"
  unfolding run_def
  by (induction reqs arbitrary: gs) (auto intro: assms)

lemma update_preserves:
  assumes "list_all (\<lambda>e. Q (snd e)) gs"
      and "gs' = gs \<or> (\<exists>g g'. gameStates_get gs pid = Some g \<and>
              gs' = gameStates_set gs pid g' \<and> R g g')"
      and "\<And>g g'. Q g \<Longrightarrow> R g g' \<Longrightarrow> Q g'"
  shows "list_all (\<lambda>e. Q (snd e)) gs'"
proof -
  from assms(2) consider "gs' = gs"
    | g g' where "gameStates_get gs pid = Some g" "gs' = gameStates_set gs pid g'" "R g g'"
    by blast
  then show ?thesis
  proof cases
    case 1
    then show ?thesis using assms(1) by simp
  next
    case 2
    from list_all_get[OF assms(1) 2(1)] have "Q g" by simp
    then have "Q g'" using 2(3) by (rule assms(3))
    then show ?thesis using 2(2) assms(1) by (simp add: list_all_set)
  qed
qed

lemma fresh_preserves:
  assumes "list_all (\<lambda>e. Q (snd e)) gs"
      and "gs' = gs \<or> (\<exists>g'. gs' = gameStates_set gs pid g' \<and> R g')"
      and "\<And>g'. R g' \<Longrightarrow> Q g'"
  shows "list_all (\<lambda>e. Q (snd e)) gs'"
  using assms by (auto simp: list_all_set)

lemma step_score_nonneg:
  assumes "list_all (\<lambda>e. 0 \<le> score (snd e)) gs"
  shows "list_all (\<lambda>e. 0 \<le> score (snd e)) (step gs req)"
proof (cases req)
  case (Start pid today results)
  show ?thesis
    unfolding Start step.simps by (rule fresh_preserves[OF assms start_effect]) simp
next
  case (Answer pid a)
  show ?thesis
    unfolding Answer step.simps by (rule update_preserves[OF assms answer_effect]) simp
next
  case (Hint pid pick rnd)
  show ?thesis
    unfolding Hint step.simps by (rule update_preserves[OF assms hint_effect]) simp
next
  case (Skip pid)
  show ?thesis
    unfolding Skip step.simps by (rule update_preserves[OF assms skip_effect]) simp
next
  case Leaderboard
  then show ?thesis using assms by (simp add: leaderboard_effect)
next
  case (Stats pid)
  then show ?thesis using assms by (simp add: stats_effect)
qed

lemma step_limits:
  assumes "list_all (\<lambda>e. hintsUsed (snd e) \<le> 3 \<and> skipsUsed (snd e) \<le> 2) gs"
  shows "list_all (\<lambda>e. hintsUsed (snd e) \<le> 3 \<and> skipsUsed (snd e) \<le> 2) (step gs req)"
proof (cases req)
  case (Start pid today results)
  show ?thesis
    unfolding Start step.simps by (rule fresh_preserves[OF assms start_effect]) simp
next
  case (Answer pid a)
  show ?thesis
    unfolding Answer step.simps by (rule update_preserves[OF assms answer_effect]) simp
next
  case (Hint pid pick rnd)
  show ?thesis
    unfolding Hint step.simps by (rule update_preserves[OF assms hint_effect]) simp
next
  case (Skip pid)
  show ?thesis
    unfolding Skip step.simps by (rule update_preserves[OF assms skip_effect]) simp
next
  case Leaderboard
  then show ?thesis using assms by (simp add: leaderboard_effect)
next
  case (Stats pid)
  then show ?thesis using assms by (simp add: stats_effect)
qed

subsection \<open>The sample games, evaluated\<close>

lemma sampleStore_session: "gameStates_get sampleStore ''p1'' = Some sampleSession"
  by code_simp

lemma midStore_session: "gameStates_get midStore ''p1'' = Some midSession"
  by code_simp

lemma completedStore_session: "gameStates_get completedStore ''p1'' = Some completedSession"
  by code_simp

lemma exhaustedStore_session: "gameStates_get exhaustedStore ''p1'' = Some exhaustedSession"
  by code_simp

subsection \<open>Sorting by a comparison function\<close>

lemma insertBy_insort:
  "insertBy (\<lambda>a b. f b - f a) x xs = insort_key (\<lambda>x. - f x) x xs"
  by (induction xs) auto

lemma sortBy_sort_key: "sortBy (\<lambda>a b. f b - f a) xs = sort_key (\<lambda>x. - f x) xs"
  by (induction xs) (auto simp: sortBy_def insertBy_insort sort_key_def)

subsection \<open>How the submitted answer enters the answer tool\<close>

lemma forget_answered:
  "forgetUserAnswers (g\<lparr>questions := (questions g)[i := (questions g ! i)\<lparr>answered := True, userAnswer := Some a\<rparr>]\<rparr>)
   = forgetUserAnswers (g\<lparr>questions := (questions g)[i := (questions g ! i)\<lparr>answered := True, userAnswer := Some b\<rparr>]\<rparr>)"
  by (simp add: forgetUserAnswers_def map_update)





section \<open>Claims\<close>



text \<open>
  C10.  A wrong answer to the current question changes nothing of the session but the
  streak (reset to 0), the question's answered mark and recorded answer, and the index
  (advanced by one): score, hints used and skips used stay as they were, and the tool
  reports the unchanged score.
\<close>

theorem wrong_answer_frame:
  assumes "gameStates_get gs pid = Some g"
      and "currentQuestionIndex g < length (questions g)"
      and "\<not> isCorrectAnswer (questions g ! currentQuestionIndex g) answer"
  shows "\<exists>r g'. fst (answerQuestionTool gs pid answer) = Inr r \<and>
            gameStates_get (snd (answerQuestionTool gs pid answer)) pid = Some g' \<and>
            g' = g\<lparr>questions := (questions g)[currentQuestionIndex g :=
                       (questions g ! currentQuestionIndex g)
                         \<lparr>answered := True, userAnswer := Some answer\<rparr>],
                   streak := 0,
                   currentQuestionIndex := currentQuestionIndex g + 1\<rparr> \<and>
            score g' = score g \<and> hintsUsed g' = hintsUsed g \<and> skipsUsed g' = skipsUsed g \<and>
            \<not> a_correct r \<and> a_score r = score g"
  using assms
  by (simp add: answerQuestionTool_def Let_def get_set)

theorem wrong_answer_frame_witness:
  "gameStates_get midStore ''p1'' = Some midSession \<and>
   currentQuestionIndex midSession < length (questions midSession) \<and>
   \<not> isCorrectAnswer (questions midSession ! currentQuestionIndex midSession) ''Paris'' \<and>
   score midSession = 20 \<and>
   map_option score (gameStates_get (snd (answerQuestionTool midStore ''p1'' ''Paris'')) ''p1'')
     = Some 20"
proof -
  have h2: "currentQuestionIndex midSession < length (questions midSession)"
    by code_simp
  have h3: "\<not> isCorrectAnswer (questions midSession ! currentQuestionIndex midSession) ''Paris''"
    by code_simp
  have h4: "score midSession = 20"
    by code_simp
  from wrong_answer_frame[OF midStore_session h2 h3] midStore_session h2 h3 h4
  show ?thesis
    by auto
qed

text \<open>
  C5.  For a stored session: a wrong answer to the current question resets the streak to
  0, a right answer raises it by exactly one, a skip that is carried out resets it to 0,
  and a hint request, whatever its outcome, leaves it as it was.
\<close>

theorem streak_rules:
  assumes "gameStates_get gs pid = Some g"
  shows "(currentQuestionIndex g < length (questions g) \<and>
          \<not> isCorrectAnswer (questions g ! currentQuestionIndex g) wrong \<longrightarrow>
            map_option streak (gameStates_get (snd (answerQuestionTool gs pid wrong)) pid) = Some 0) \<and>
         (currentQuestionIndex g < length (questions g) \<and>
          isCorrectAnswer (questions g ! currentQuestionIndex g) right \<longrightarrow>
            map_option streak (gameStates_get (snd (answerQuestionTool gs pid right)) pid)
              = Some (streak g + 1)) \<and>
         (skipsUsed g < 2 \<longrightarrow>
            map_option streak (gameStates_get (snd (skipQuestionTool gs pid)) pid) = Some 0) \<and>
         map_option streak (gameStates_get (snd (getHintTool gs pid pick rnd)) pid) = Some (streak g)"
  using assms
  by (simp add: answerQuestionTool_def skipQuestionTool_def getHintTool_def Let_def get_set)

theorem streak_rules_witness:
  "gameStates_get midStore ''p1'' = Some midSession \<and>
   streak midSession = 1 \<and>
   currentQuestionIndex midSession < length (questions midSession) \<and>
   \<not> isCorrectAnswer (questions midSession ! currentQuestionIndex midSession) ''Paris'' \<and>
   isCorrectAnswer (questions midSession ! currentQuestionIndex midSession) ''a'' \<and>
   skipsUsed midSession < 2 \<and>
   map_option streak (gameStates_get (snd (answerQuestionTool midStore ''p1'' ''Paris'')) ''p1'')
     = Some 0 \<and>
   map_option streak (gameStates_get (snd (answerQuestionTool midStore ''p1'' ''a'')) ''p1'')
     = Some 2 \<and>
   map_option streak (gameStates_get (snd (skipQuestionTool midStore ''p1'')) ''p1'') = Some 0 \<and>
   map_option streak (gameStates_get (snd (getHintTool midStore ''p1'' 0 (\<lambda>i. 0))) ''p1'')
     = Some 1"
proof -
  have h1: "streak midSession = 1"
    by code_simp
  have h2: "currentQuestionIndex midSession < length (questions midSession)"
    by code_simp
  have h3: "\<not> isCorrectAnswer (questions midSession ! currentQuestionIndex midSession) ''Paris''"
    by code_simp
  have h4: "isCorrectAnswer (questions midSession ! currentQuestionIndex midSession) ''a''"
    by code_simp
  have h5: "skipsUsed midSession < 2"
    by code_simp
  from streak_rules[OF midStore_session, of "''Paris''" "''a''" 0 "\<lambda>i. 0"]
    midStore_session h1 h2 h3 h4 h5
  show ?thesis
    by (simp add: numeral_2_eq_2)
qed

text \<open>
  C6.  In every store that a sequence of tool calls produces from a store within the
  limits (the empty store is one), no session has used more than 3 hints or more than 2
  skips.  A hint request on a session that has used 3 hints never changes the store and
  never succeeds: while the session has a current question it returns
  \<open>success = false\<close>, and on a finished session the check of the current question
  throws first.  A skip request on a session that has used 2 skips returns
  \<open>success = false\<close> and leaves the store as it was.
\<close>

theorem hint_and_skip_limits:
  assumes "list_all (\<lambda>e. hintsUsed (snd e) \<le> 3 \<and> skipsUsed (snd e) \<le> 2) gs"
      and "gameStates_get gs pid = Some g"
  shows "list_all (\<lambda>e. hintsUsed (snd e) \<le> 3 \<and> skipsUsed (snd e) \<le> 2) (run gs reqs) \<and>
         (3 \<le> hintsUsed g \<longrightarrow>
            snd (getHintTool gs pid pick rnd) = gs \<and>
            fst (getHintTool gs pid pick rnd) \<in>
              {Inl NoCurrentQuestion,
               Inr \<lparr>h_success = False,
                    h_remainingOptions = options (questions g ! currentQuestionIndex g),
                    h_hintsUsed = hintsUsed g, h_scorePenalty = 0\<rparr>}) \<and>
         (3 \<le> hintsUsed g \<and> currentQuestionIndex g < length (questions g) \<longrightarrow>
            (\<exists>r. fst (getHintTool gs pid pick rnd) = Inr r \<and> \<not> h_success r \<and>
                 h_hintsUsed r = hintsUsed g \<and> h_scorePenalty r = 0)) \<and>
         (2 \<le> skipsUsed g \<longrightarrow>
            snd (skipQuestionTool gs pid) = gs \<and>
            (\<exists>r. fst (skipQuestionTool gs pid) = Inr r \<and> \<not> s_success r \<and>
                 s_skipsUsed r = skipsUsed g \<and> s_scorePenalty r = 0))"
proof -
  have "list_all (\<lambda>e. hintsUsed (snd e) \<le> 3 \<and> skipsUsed (snd e) \<le> 2) (run gs reqs)"
    using assms(1) by (rule run_invariant[rotated]) (rule step_limits)
  moreover have "3 \<le> hintsUsed g \<longrightarrow>
            snd (getHintTool gs pid pick rnd) = gs \<and>
            fst (getHintTool gs pid pick rnd) \<in>
              {Inl NoCurrentQuestion,
               Inr \<lparr>h_success = False,
                    h_remainingOptions = options (questions g ! currentQuestionIndex g),
                    h_hintsUsed = hintsUsed g, h_scorePenalty = 0\<rparr>}"
    using assms(2) by (simp add: getHintTool_def Let_def)
  moreover have "3 \<le> hintsUsed g \<and> currentQuestionIndex g < length (questions g) \<longrightarrow>
            (\<exists>r. fst (getHintTool gs pid pick rnd) = Inr r \<and> \<not> h_success r \<and>
                 h_hintsUsed r = hintsUsed g \<and> h_scorePenalty r = 0)"
    using assms(2) by (simp add: getHintTool_def Let_def)
  moreover have "2 \<le> skipsUsed g \<longrightarrow>
            snd (skipQuestionTool gs pid) = gs \<and>
            (\<exists>r. fst (skipQuestionTool gs pid) = Inr r \<and> \<not> s_success r \<and>
                 s_skipsUsed r = skipsUsed g \<and> s_scorePenalty r = 0)"
    using assms(2) by (simp add: skipQuestionTool_def Let_def)
  ultimately show ?thesis
    by blast
qed

theorem hint_and_skip_limits_witness:
  "list_all (\<lambda>e. hintsUsed (snd e) \<le> 3 \<and> skipsUsed (snd e) \<le> 2) exhaustedStore \<and>
   gameStates_get exhaustedStore ''p1'' = Some exhaustedSession \<and>
   hintsUsed exhaustedSession = 3 \<and> skipsUsed exhaustedSession = 2 \<and>
   currentQuestionIndex exhaustedSession < length (questions exhaustedSession) \<and>
   list_all (\<lambda>e. hintsUsed (snd e) \<le> 3 \<and> skipsUsed (snd e) \<le> 2)
     (run exhaustedStore [Hint ''p1'' 0 (\<lambda>i. 0), Skip ''p1'']) \<and>
   snd (getHintTool exhaustedStore ''p1'' 0 (\<lambda>i. 0)) = exhaustedStore \<and>
   snd (skipQuestionTool exhaustedStore ''p1'') = exhaustedStore \<and>
   map (\<lambda>e. (hintsUsed (snd e), skipsUsed (snd e)))
     (run exhaustedStore [Hint ''p1'' 0 (\<lambda>i. 0), Skip ''p1'']) = [(3, 2)]"
proof -
  have h1: "list_all (\<lambda>e. hintsUsed (snd e) \<le> 3 \<and> skipsUsed (snd e) \<le> 2) exhaustedStore"
    by code_simp
  have h2: "hintsUsed exhaustedSession = 3" "skipsUsed exhaustedSession = 2"
    "currentQuestionIndex exhaustedSession < length (questions exhaustedSession)"
    by code_simp+
  have h3: "map (\<lambda>e. (hintsUsed (snd e), skipsUsed (snd e)))
     (run exhaustedStore [Hint ''p1'' 0 (\<lambda>i. 0), Skip ''p1'']) = [(3, 2)]"
    by code_simp
  from hint_and_skip_limits[OF h1 exhaustedStore_session,
      of "[Hint ''p1'' 0 (\<lambda>i. 0), Skip ''p1'']" 0 "\<lambda>i. 0"]
    h1 h2 h3 exhaustedStore_session
  show ?thesis
    by simp
qed

text \<open>
  C2.  If no session of a store has a negative score (the empty store is one such), then
  no session has a negative score after any sequence of tool calls.  A hint that is
  granted sets the score to \<open>max 0 (score - 2)\<close> and a skip that is carried out sets it
  to \<open>max 0 (score - 1)\<close>.
\<close>

theorem score_never_negative:
  assumes "list_all (\<lambda>e. 0 \<le> score (snd e)) gs"
      and "gameStates_get gs pid = Some g"
  shows "list_all (\<lambda>e. 0 \<le> score (snd e)) (run gs reqs) \<and>
         (currentQuestionIndex g < length (questions g) \<and> hintsUsed g < 3 \<longrightarrow>
            map_option score (gameStates_get (snd (getHintTool gs pid pick rnd)) pid)
              = Some (max 0 (score g - 2))) \<and>
         (skipsUsed g < 2 \<longrightarrow>
            map_option score (gameStates_get (snd (skipQuestionTool gs pid)) pid)
              = Some (max 0 (score g - 1)))"
proof -
  have "list_all (\<lambda>e. 0 \<le> score (snd e)) (run gs reqs)"
    using assms(1) by (rule run_invariant[rotated]) (rule step_score_nonneg)
  moreover have "currentQuestionIndex g < length (questions g) \<and> hintsUsed g < 3 \<longrightarrow>
            map_option score (gameStates_get (snd (getHintTool gs pid pick rnd)) pid)
              = Some (max 0 (score g - 2))"
    using assms(2) by (simp add: getHintTool_def Let_def get_set)
  moreover have "skipsUsed g < 2 \<longrightarrow>
            map_option score (gameStates_get (snd (skipQuestionTool gs pid)) pid)
              = Some (max 0 (score g - 1))"
    using assms(2) by (simp add: skipQuestionTool_def Let_def get_set)
  ultimately show ?thesis
    by blast
qed

theorem score_never_negative_witness:
  "list_all (\<lambda>e. 0 \<le> score (snd e)) sampleStore \<and>
   gameStates_get sampleStore ''p1'' = Some sampleSession \<and>
   score sampleSession = 0 \<and>
   currentQuestionIndex sampleSession < length (questions sampleSession) \<and>
   hintsUsed sampleSession < 3 \<and> skipsUsed sampleSession < 2 \<and>
   list_all (\<lambda>e. 0 \<le> score (snd e))
     (run sampleStore [Hint ''p1'' 0 (\<lambda>i. 0), Skip ''p1'', Answer ''p1'' ''A'', Skip ''p1'']) \<and>
   map_option score (gameStates_get (snd (getHintTool sampleStore ''p1'' 0 (\<lambda>i. 0))) ''p1'')
     = Some 0 \<and>
   map_option score (gameStates_get (snd (skipQuestionTool sampleStore ''p1'')) ''p1'') = Some 0"
proof -
  have h1: "list_all (\<lambda>e. 0 \<le> score (snd e)) sampleStore"
    by code_simp
  have h2: "score sampleSession = 0"
    "currentQuestionIndex sampleSession < length (questions sampleSession)"
    "hintsUsed sampleSession < 3" "skipsUsed sampleSession < 2"
    by code_simp+
  from score_never_negative[OF h1 sampleStore_session,
      of "[Hint ''p1'' 0 (\<lambda>i. 0), Skip ''p1'', Answer ''p1'' ''A'', Skip ''p1'']" 0 "\<lambda>i. 0"]
    h1 h2 sampleStore_session
  show ?thesis
    by simp
qed

text \<open>
  C9.  The leaderboard is the first ten entries of a list that holds the projection of
  every stored session exactly once and is ordered by descending score; so it is itself
  ordered by descending score and has ten entries, or as many as there are sessions if
  these are fewer.  \<open>totalPlayers\<close> is the number of stored sessions, and the store is
  returned as it was.
\<close>

theorem leaderboard_top_ten:
  "leaderboardEntry (p, g) =
     \<lparr>l_playerId = p, l_score = score g, l_streak = streak g,
      l_questionsAnswered = length (filter answered (questions g))\<rparr> \<and>
   (\<exists>full. mset full = mset (map leaderboardEntry gs) \<and>
           sorted_wrt (\<lambda>a b. l_score a \<ge> l_score b) full \<and>
           leaderboard (fst (getLeaderboardTool gs)) = take 10 full) \<and>
   sorted_wrt (\<lambda>a b. l_score a \<ge> l_score b) (leaderboard (fst (getLeaderboardTool gs))) \<and>
   length (leaderboard (fst (getLeaderboardTool gs))) = min 10 (length gs) \<and>
   totalPlayers (fst (getLeaderboardTool gs)) = length gs \<and>
   snd (getLeaderboardTool gs) = gs"
proof -
  let ?full = "sortBy (\<lambda>a b. l_score b - l_score a) (map leaderboardEntry gs)"
  have perm: "mset ?full = mset (map leaderboardEntry gs)"
    by (simp add: sortBy_sort_key)
  have "sorted (map (\<lambda>x. - l_score x) ?full)"
    by (simp add: sortBy_sort_key)
  then have ordered: "sorted_wrt (\<lambda>a b. l_score a \<ge> l_score b) ?full"
    by (simp add: sorted_map)
  have board: "leaderboard (fst (getLeaderboardTool gs)) = take 10 ?full"
    by (simp add: getLeaderboardTool_def)
  have "length ?full = length gs"
    by (simp add: sortBy_sort_key)
  then have len: "length (leaderboard (fst (getLeaderboardTool gs))) = min 10 (length gs)"
    by (simp add: board min.commute)
  have "sorted_wrt (\<lambda>a b. l_score a \<ge> l_score b) (leaderboard (fst (getLeaderboardTool gs)))"
    unfolding board using ordered by (rule sorted_wrt_take)
  moreover have "\<exists>full. mset full = mset (map leaderboardEntry gs) \<and>
           sorted_wrt (\<lambda>a b. l_score a \<ge> l_score b) full \<and>
           leaderboard (fst (getLeaderboardTool gs)) = take 10 full"
    using perm ordered board by blast
  moreover have "leaderboardEntry (p, g) =
     \<lparr>l_playerId = p, l_score = score g, l_streak = streak g,
      l_questionsAnswered = length (filter answered (questions g))\<rparr>"
    by (simp add: leaderboardEntry_def)
  moreover have "totalPlayers (fst (getLeaderboardTool gs)) = length gs"
    by (simp add: getLeaderboardTool_def)
  ultimately show ?thesis
    using len leaderboard_effect[of gs] by blast
qed




text \<open>
  The second proviso of the amended claim is needed as well: in \<open>paddedStore\<close> the correct
  answer is the text of option 0 with a trailing blank.  The letter A is judged right,
  the text of option 0 is trimmed before the comparison and judged wrong.
\<close>

lemma padded_text_example:
  "optionLetter 0 = ''A'' \<and>
   map_sum id a_correct (fst (answerQuestionTool paddedStore ''p1'' ''A'')) = Inr True \<and>
   map_sum id a_correct (fst (answerQuestionTool paddedStore ''p1'' ''Rome '')) = Inr False"
  by code_simp

text \<open>
  C3.  What holds of the claim: without a stored session all three tools throw and leave
  the store as it was, and on a finished session the answer tool and the hint tool throw
  and leave the store as it was.
\<close>

lemma no_session_rejected:
  assumes "gameStates_get gs pid = None"
  shows "answerQuestionTool gs pid answer = (Inl NoActiveGame, gs) \<and>
         getHintTool gs pid pick rnd = (Inl NoActiveGame, gs) \<and>
         skipQuestionTool gs pid = (Inl NoActiveGame, gs)"
  using assms by (simp add: answerQuestionTool_def getHintTool_def skipQuestionTool_def)

lemma finished_session_rejected:
  assumes "gameStates_get gs pid = Some g"
      and "currentQuestionIndex g = length (questions g)"
  shows "answerQuestionTool gs pid answer = (Inl NoCurrentQuestion, gs) \<and>
         getHintTool gs pid pick rnd = (Inl NoCurrentQuestion, gs)"
  using assms by (simp add: answerQuestionTool_def getHintTool_def)

text \<open>
  C3, where the code departs from the claim: the skip tool has no check of the current
  question.  In \<open>completedStore\<close> player p1 has answered all three questions
  (\<open>currentQuestionIndex = length questions = 3\<close>, score 47, streak 3, no skip used); a
  skip request then succeeds, takes a point, resets the streak, counts a skip and moves
  the index to 4.
\<close>

theorem skip_on_finished_session:
  "gameStates_get completedStore ''p1'' = Some completedSession \<and>
   currentQuestionIndex completedSession = length (questions completedSession) \<and>
   (score completedSession, streak completedSession, skipsUsed completedSession,
    currentQuestionIndex completedSession) = (47, 3, 0, 3) \<and>
   fst (skipQuestionTool completedStore ''p1'') =
     Inr \<lparr>s_success = True, s_nextQuestion = None, s_skipsUsed = 1, s_scorePenalty = 1\<rparr> \<and>
   snd (skipQuestionTool completedStore ''p1'') \<noteq> completedStore \<and>
   map (\<lambda>e. (score (snd e), streak (snd e), skipsUsed (snd e), currentQuestionIndex (snd e)))
     (snd (skipQuestionTool completedStore ''p1'')) = [(46, 0, 1, 4)]"
  by code_simp

text \<open>
  C8.  What holds of the claim: an answer to the current question advances the index by
  exactly one and keeps it within the question list, and the returned completion flag says
  whether the end is reached; a skip that is carried out advances the index by exactly
  one, which keeps it within the question list while the session has a current question;
  a hint request never moves the index.
\<close>

lemma index_advance:
  assumes "gameStates_get gs pid = Some g"
  shows "(currentQuestionIndex g < length (questions g) \<longrightarrow>
            (\<exists>r g'. answerQuestionTool gs pid answer = (Inr r, gameStates_set gs pid g') \<and>
               currentQuestionIndex g' = currentQuestionIndex g + 1 \<and>
               length (questions g') = length (questions g) \<and>
               currentQuestionIndex g' \<le> length (questions g') \<and>
               a_gameCompleted r = (currentQuestionIndex g' = length (questions g')))) \<and>
         (skipsUsed g < 2 \<longrightarrow>
            (\<exists>r g'. skipQuestionTool gs pid = (Inr r, gameStates_set gs pid g') \<and>
               currentQuestionIndex g' = currentQuestionIndex g + 1 \<and>
               questions g' = questions g)) \<and>
         map_option currentQuestionIndex (gameStates_get (snd (getHintTool gs pid pick rnd)) pid)
           = Some (currentQuestionIndex g)"
  using assms
  by (auto simp: answerQuestionTool_def skipQuestionTool_def getHintTool_def Let_def get_set)

text \<open>
  C8, where the code departs from the claim: after the three answers of
  \<open>completedStore\<close> the index equals the number of questions, and the unchecked skip of
  the finished session moves it beyond.
\<close>

theorem index_beyond_questions:
  "map (\<lambda>e. (currentQuestionIndex (snd e), length (questions (snd e))))
     (run [] [Start ''p1'' ''2025-01-01'' (Some sampleQuestions),
              Answer ''p1'' ''B'', Answer ''p1'' ''A'', Answer ''p1'' ''C''])
     = [(3, 3)] \<and>
   map (\<lambda>e. (currentQuestionIndex (snd e), length (questions (snd e))))
     (run [] [Start ''p1'' ''2025-01-01'' (Some sampleQuestions),
              Answer ''p1'' ''B'', Answer ''p1'' ''A'', Answer ''p1'' ''C'', Skip ''p1''])
     = [(4, 3)] \<and>
   map (\<lambda>e. (currentQuestionIndex (snd e), length (questions (snd e))))
     (run [] [Start ''p1'' ''2025-01-01'' (Some sampleQuestions),
              Answer ''p1'' ''B'', Answer ''p1'' ''A'', Answer ''p1'' ''C'', Skip ''p1'',
              Skip ''p1''])
     = [(5, 3)]"
  by code_simp

text \<open>
  C4, where the code departs from the claim: the statistics read a recorded letter
  against the options of the first question, whichever question it was given to.  In
  \<open>completedStore\<close> the three recorded answers B, A, C were each judged right when they
  were submitted; the statistics count one right answer and an accuracy of 33.
\<close>

theorem stats_use_first_options:
  "isCorrectAnswer (questions sampleSession ! 0) ''B'' \<and>
   isCorrectAnswer (questions sampleSession ! 1) ''A'' \<and>
   isCorrectAnswer (questions sampleSession ! 2) ''C'' \<and>
   map userAnswer (questions completedSession) = [Some ''B'', Some ''A'', Some ''C''] \<and>
   map answered (questions completedSession) = [True, True, True] \<and>
   fst (getGameStatsTool completedStore ''p1'') =
     Inr \<lparr>g_playerId = ''p1'', g_score = 47, g_currentQuestion = 4, g_totalQuestions = 3,
          g_streak = 3, g_hintsUsed = 0, g_skipsUsed = 0, g_correctAnswers = 1,
          g_accuracy = 33\<rparr>"
  by code_simp

end
